theory Spec2Isabelle
  imports Main
begin

section \<open>JavaScript strings and numbers used by the action\<close>

text \<open>
  A JavaScript string is modelled as a HOL \<open>string\<close>; a \<open>char\<close> stands for one
  code unit below 256. The three string operations of \<^verbatim>\<open>src/index.ts\<close> are
  \<^verbatim>\<open>startsWith\<close>, \<^verbatim>\<open>slice\<close> with a non-negative start and template
  concatenation (\<open>@\<close>).
\<close>

definition startsWith :: "string \<Rightarrow> string \<Rightarrow> bool" where
  "startsWith s p = (take (length p) s = p)"

definition slice :: "string \<Rightarrow> nat \<Rightarrow> string" where
  "slice s n = drop n s"

text \<open>
  \<^verbatim>\<open>parseInt\<close> yields \<^verbatim>\<open>NaN\<close>, an infinity or an integer-valued double.
  \<open>Num n\<close> is the finite double whose value is the integer \<open>n\<close>; the two zeros are
  both \<open>Num 0\<close> (the action only compares with \<open>0\<close>).
\<close>

datatype jsnum = NaN | Num int | PosInf | NegInf

text \<open>Number of binary digits of a natural number.\<close>

fun bits :: "nat \<Rightarrow> nat" where
  "bits n = (if n = 0 then 0 else Suc (bits (n div 2)))"

declare bits.simps [simp del]

text \<open>
  Rounding of a natural number to 53 significant bits, ties to the even significand
  (IEEE 754 binary64 with the exponent left unbounded). \<open>k\<close> is the number of bits that
  do not fit, \<open>0\<close> for a number of at most 53 bits.
\<close>

definition roundDouble :: "nat \<Rightarrow> nat" where
  "roundDouble m =
     (let k = bits m - 53; q = m div 2 ^ k; r = m mod 2 ^ k in
      if k = 0 then m
      else if 2 ^ k < 2 * r then (q + 1) * 2 ^ k
      else if 2 * r = 2 ^ k then (if even q then q * 2 ^ k else (q + 1) * 2 ^ k)
      else q * 2 ^ k)"

text \<open>The Number value of a mathematical integer; magnitudes that round to \<open>2 ^ 1024\<close> overflow.\<close>

definition toNumber :: "int \<Rightarrow> jsnum" where
  "toNumber n =
     (let m = roundDouble (nat \<bar>n\<bar>) in
      if 2 ^ 1024 \<le> m then (if n < 0 then NegInf else PosInf)
      else Num (if n < 0 then - int m else int m))"

text \<open>\<^verbatim>\<open>day > 0\<close> and \<^verbatim>\<open>day - 1\<close> on such numbers.\<close>

fun gt0 :: "jsnum \<Rightarrow> bool" where
  "gt0 NaN = False"
| "gt0 (Num n) = (0 < n)"
| "gt0 PosInf = True"
| "gt0 NegInf = False"

fun minus1 :: "jsnum \<Rightarrow> jsnum" where
  "minus1 NaN = NaN"
| "minus1 (Num n) = toNumber (n - 1)"
| "minus1 PosInf = PosInf"
| "minus1 NegInf = NegInf"

subsection \<open>parseInt\<close>

text \<open>White space and line terminators among the code units below 256.\<close>

definition isWhiteSpace :: "char \<Rightarrow> bool" where
  "isWhiteSpace c = ((of_char c :: nat) \<in> {9, 10, 11, 12, 13, 32, 160})"

text \<open>The value of a code unit as a digit: \<open>0-9\<close>, \<open>a-z\<close>, \<open>A-Z\<close>.\<close>

definition digitValue :: "char \<Rightarrow> nat option" where
  "digitValue c =
     (let n = (of_char c :: nat) in
      if 48 \<le> n \<and> n \<le> 57 then Some (n - 48)
      else if 97 \<le> n \<and> n \<le> 122 then Some (n - 87)
      else if 65 \<le> n \<and> n \<le> 90 then Some (n - 55)
      else None)"

definition isRadixDigit :: "nat \<Rightarrow> char \<Rightarrow> bool" where
  "isRadixDigit R c = (case digitValue c of None \<Rightarrow> False | Some v \<Rightarrow> v < R)"

definition radixValue :: "nat \<Rightarrow> string \<Rightarrow> nat" where
  "radixValue R Z = foldl (\<lambda>acc c. acc * R + the (digitValue c)) 0 Z"

text \<open>
  \<^verbatim>\<open>parseInt(string)\<close> with no radix argument, after ECMA-262: leading white space is
  dropped, one sign is read, a \<^verbatim>\<open>0x\<close>/\<^verbatim>\<open>0X\<close> prefix selects radix 16, the longest
  prefix of digits is the numeral, and no digit at all gives \<^verbatim>\<open>NaN\<close>.
  \<open>parseDigits\<close> is the part after the sign.
\<close>

definition parseDigits :: "bool \<Rightarrow> string \<Rightarrow> jsnum" where
  "parseDigits neg S =
     (let hex = (take 2 S = ''0x'' \<or> take 2 S = ''0X'');
          R = (if hex then 16 else 10);
          Z = takeWhile (isRadixDigit R) (if hex then drop 2 S else S)
      in if Z = [] then NaN
         else toNumber (if neg then - int (radixValue R Z) else int (radixValue R Z)))"

definition parseInt :: "string \<Rightarrow> jsnum" where
  "parseInt str =
     (case dropWhile isWhiteSpace str of
        [] \<Rightarrow> NaN
      | c # cs \<Rightarrow>
          if c = CHR ''-'' then parseDigits True cs
          else if c = CHR ''+'' then parseDigits False cs
          else parseDigits False (c # cs))"

subsection \<open>Number to string\<close>

definition digitChar :: "nat \<Rightarrow> char" where
  "digitChar d = ''0123456789'' ! d"

fun showNat :: "nat \<Rightarrow> string" where
  "showNat n = (if n < 10 then [digitChar n] else showNat (n div 10) @ [digitChar (n mod 10)])"

declare showNat.simps [simp del]

text \<open>The decimal numeral of an integer, as a template literal prints a safe integer.\<close>

definition decimal :: "int \<Rightarrow> string" where
  "decimal n = (if n < 0 then CHR ''-'' # showNat (nat (- n)) else showNat (nat n))"

text \<open>
  Beyond \<open>2 ^ 53\<close> a double prints with the fewest significant digits that read back as
  the same double (the nearest such numeral), and in exponent notation from \<open>10 ^ 21\<close> on.
\<close>

definition shortestWith :: "nat \<Rightarrow> nat \<Rightarrow> nat option" where
  "shortestWith x k =
     (let j = length (showNat x) - k; lo = (x div 10 ^ j) * 10 ^ j; hi = lo + 10 ^ j in
      if roundDouble lo = x then
        (if roundDouble hi = x then
           (if x - lo < hi - x then Some lo
            else if hi - x < x - lo then Some hi
            else if even (x div 10 ^ j) then Some lo else Some hi)
         else Some lo)
      else if roundDouble hi = x then Some hi
      else None)"

definition shortest :: "nat \<Rightarrow> nat" where
  "shortest x = (case List.map_filter (shortestWith x) [1 ..< length (showNat x)] of
                   [] \<Rightarrow> x | v # _ \<Rightarrow> v)"

definition showDouble :: "nat \<Rightarrow> string" where
  "showDouble x =
     (let ds = showNat (shortest x); n = length ds in
      if n \<le> 21 then ds
      else (case rev (dropWhile (\<lambda>c. c = CHR ''0'') (rev ds)) of
              [] \<Rightarrow> ds
            | [d] \<Rightarrow> d # ''e+'' @ showNat (n - 1)
            | d # rest \<Rightarrow> d # CHR ''.'' # rest @ ''e+'' @ showNat (n - 1)))"

definition numberToString :: "jsnum \<Rightarrow> string" where
  "numberToString x =
     (case x of
        NaN \<Rightarrow> ''NaN''
      | PosInf \<Rightarrow> ''Infinity''
      | NegInf \<Rightarrow> ''-Infinity''
      | Num n \<Rightarrow>
          if \<bar>n\<bar> \<le> 2 ^ 53 then decimal n
          else if n < 0 then CHR ''-'' # showDouble (nat (- n))
          else showDouble (nat n))"

section \<open>The label transition\<close>

text \<open>
  Lines 46 to 60 of \<^verbatim>\<open>updatePRLabels\<close>: \<open>currentLabel\<close> is the first label whose name
  starts with \<^verbatim>\<open>D-\<close>, \<open>newLabel\<close> the label computed from it.
\<close>

definition currentLabel :: "string list \<Rightarrow> string option" where
  "currentLabel ls = find (\<lambda>label. startsWith label ''D-'') ls"

definition newLabel :: "string list \<Rightarrow> string" where
  "newLabel ls =
     (case currentLabel ls of
        None \<Rightarrow> ''D-3''
      | Some name \<Rightarrow>
          (let day = parseInt (slice name 2) in
           if gt0 day then ''D-'' @ numberToString (minus1 day) else ''D-0''))"

section \<open>Pull requests, messages and the outside world\<close>

text \<open>
  A pull request as the tracker reports it, with the fields the action reads.
  \<open>number\<close> is the integer value of \<^verbatim>\<open>pr.number\<close>, \<open>user\<close> the login of
  \<^verbatim>\<open>pr.user\<close> (\<open>None\<close> when the user is null) and \<open>labels\<close> the names of
  \<^verbatim>\<open>pr.labels\<close> in order.
\<close>

record pull =
  number :: int
  title :: string
  html_url :: string
  user :: "string option"
  labels :: "string list"

text \<open>The object handed to \<^verbatim>\<open>sendSlackNotification\<close>.\<close>

record summary =
  sm_number :: int
  sm_title :: string
  sm_html_url :: string
  sm_login :: string

text \<open>
  A Slack section block carries either one \<^verbatim>\<open>mrkdwn\<close> text or a list of
  \<^verbatim>\<open>mrkdwn\<close> fields.
\<close>

datatype block = SectionText string | SectionFields "string list"

record message =
  msg_text :: string
  msg_blocks :: "block list"

text \<open>
  What a rejected promise throws: an \<^verbatim>\<open>Error\<close> object with its message, or some
  other value (the \<^verbatim>\<open>catch\<close> of \<^verbatim>\<open>run\<close> tells them apart).
\<close>

datatype thrown = ErrorObject string | OtherValue

text \<open>
  The requests the action makes. The octokit handle, \<^verbatim>\<open>owner\<close> and \<^verbatim>\<open>repo\<close>
  are the same in every request of a run and are left out; \<^verbatim>\<open>console.log\<close> lines are
  not recorded.
\<close>

datatype call =
    PullsList
  | SetLabels int "string list"
  | AddLabels int "string list"
  | PullsGet int
  | Post string message

text \<open>
  The world of one run: the open pull requests of the repository in the order in which
  the tracker lists them (the listing is taken to return all of them), the requests the
  environment rejects and what each throws, the requests made so far, and the message
  passed to \<^verbatim>\<open>core.setFailed\<close>, if any. A request for a pull request the tracker
  does not have throws as well.
\<close>

record world =
  pulls :: "pull list"
  rejects :: "call \<Rightarrow> thrown option"
  calls :: "call list"
  failed :: "string option"

definition noReject :: "call \<Rightarrow> thrown option" where
  "noReject c = None"

definition rejectOnly :: "call \<Rightarrow> thrown \<Rightarrow> call \<Rightarrow> thrown option" where
  "rejectOnly c e d = (if d = c then Some e else None)"

text \<open>The requests made between two worlds of the same run.\<close>

definition issued :: "world \<Rightarrow> world \<Rightarrow> call list" where
  "issued w w' = drop (length (calls w)) (calls w')"

definition request :: "call \<Rightarrow> world \<Rightarrow> thrown option \<times> world" where
  "request c w = (rejects w c, w\<lparr>calls := calls w @ [c]\<rparr>)"

definition pulls_list :: "world \<Rightarrow> (thrown + pull list) \<times> world" where
  "pulls_list w =
     (case request PullsList w of
        (Some e, w') \<Rightarrow> (Inl e, w')
      | (None, w') \<Rightarrow> (Inr (pulls w'), w'))"

definition pulls_get :: "int \<Rightarrow> world \<Rightarrow> (thrown + pull) \<times> world" where
  "pulls_get n w =
     (case request (PullsGet n) w of
        (Some e, w') \<Rightarrow> (Inl e, w')
      | (None, w') \<Rightarrow>
          (case find (\<lambda>p. number p = n) (pulls w') of
             None \<Rightarrow> (Inl (ErrorObject ''Not Found''), w')
           | Some p \<Rightarrow> (Inr p, w')))"

text \<open>Replacing the labels of an issue; adding labels keeps the ones already there.\<close>

definition issues_setLabels :: "int \<Rightarrow> string list \<Rightarrow> world \<Rightarrow> thrown option \<times> world" where
  "issues_setLabels n ls w =
     (case request (SetLabels n ls) w of
        (Some e, w') \<Rightarrow> (Some e, w')
      | (None, w') \<Rightarrow>
          (case find (\<lambda>p. number p = n) (pulls w') of
             None \<Rightarrow> (Some (ErrorObject ''Not Found''), w')
           | Some _ \<Rightarrow>
               (None, w'\<lparr>pulls := map (\<lambda>p. if number p = n then p\<lparr>labels := ls\<rparr> else p) (pulls w')\<rparr>)))"

definition issues_addLabels :: "int \<Rightarrow> string list \<Rightarrow> world \<Rightarrow> thrown option \<times> world" where
  "issues_addLabels n ls w =
     (case request (AddLabels n ls) w of
        (Some e, w') \<Rightarrow> (Some e, w')
      | (None, w') \<Rightarrow>
          (case find (\<lambda>p. number p = n) (pulls w') of
             None \<Rightarrow> (Some (ErrorObject ''Not Found''), w')
           | Some _ \<Rightarrow>
               (None, w'\<lparr>pulls := map (\<lambda>p. if number p = n
                                             then p\<lparr>labels := labels p @ filter (\<lambda>l. l \<notin> set (labels p)) ls\<rparr>
                                             else p) (pulls w')\<rparr>)))"

section \<open>sendSlackNotification\<close>

text \<open>
  Lines 135 to 177: the payload. The text and the two blocks are built first; the third
  block is pushed when the label is \<^verbatim>\<open>D-0\<close>.
\<close>

definition sendSlackNotification_message :: "summary \<Rightarrow> string \<Rightarrow> message" where
  "sendSlackNotification_message pr label =
     (let message = \<lparr>
            msg_text = ''PR #'' @ numberToString (Num (sm_number pr)) @ '' '' @ [CHR 0x22]
                         @ sm_title pr @ [CHR 0x22] @ '' has been labeled with '' @ label,
            msg_blocks = [
              SectionText (''*PR #'' @ numberToString (Num (sm_number pr)) @ '' has been updated*''),
              SectionFields [
                ''*Title:* '' @ sm_title pr,
                ''*Label:* '' @ label,
                ''*Author:* '' @ sm_login pr,
                ''*Link:* <'' @ sm_html_url pr @ ''|View PR>'']]\<rparr>
      in if label = ''D-0''
         then message\<lparr>msg_blocks :=
                msg_blocks message @ [SectionText '':warning: *This PR is due today!* :warning:'']\<rparr>
         else message)"

text \<open>Line 179: the POST.\<close>

definition sendSlackNotification :: "string \<Rightarrow> summary \<Rightarrow> string \<Rightarrow> world \<Rightarrow> thrown option \<times> world" where
  "sendSlackNotification slackWebhookUrl pr label w =
     request (Post slackWebhookUrl (sendSlackNotification_message pr label)) w"

section \<open>updatePRLabels\<close>

text \<open>The summary built at lines 78 to 83 and 115 to 120.\<close>

definition summary_of :: "pull \<Rightarrow> summary" where
  "summary_of pr =
     \<lparr>sm_number = number pr, sm_title = title pr, sm_html_url = html_url pr,
      sm_login = (case user pr of None \<Rightarrow> ''Unknown'' | Some login \<Rightarrow> login)\<rparr>"

text \<open>The label list written at lines 68 to 73.\<close>

definition writtenLabels :: "pull \<Rightarrow> string list" where
  "writtenLabels pr =
     newLabel (labels pr) # filter (\<lambda>label. \<not> startsWith label ''D-'') (labels pr)"

text \<open>One iteration of the loop, lines 46 to 90. A rejected request leaves the iteration.\<close>

definition updatePRLabels_body :: "string \<Rightarrow> pull \<Rightarrow> world \<Rightarrow> thrown option \<times> world" where
  "updatePRLabels_body slackWebhookUrl pr w =
     (if Some (newLabel (labels pr)) \<noteq> currentLabel (labels pr) then
        (case issues_setLabels (number pr) (writtenLabels pr) w of
           (Some e, w') \<Rightarrow> (Some e, w')
         | (None, w') \<Rightarrow>
             sendSlackNotification slackWebhookUrl (summary_of pr) (newLabel (labels pr)) w')
      else (None, w))"

text \<open>The loop of line 45; nothing catches inside it, so the first throw ends it.\<close>

fun updatePRLabels_loop :: "string \<Rightarrow> pull list \<Rightarrow> world \<Rightarrow> thrown option \<times> world" where
  "updatePRLabels_loop slackWebhookUrl [] w = (None, w)"
| "updatePRLabels_loop slackWebhookUrl (pr # prs) w =
     (case updatePRLabels_body slackWebhookUrl pr w of
        (Some e, w') \<Rightarrow> (Some e, w')
      | (None, w') \<Rightarrow> updatePRLabels_loop slackWebhookUrl prs w')"

definition updatePRLabels :: "string \<Rightarrow> world \<Rightarrow> thrown option \<times> world" where
  "updatePRLabels slackWebhookUrl w =
     (case pulls_list w of
        (Inl e, w') \<Rightarrow> (Some e, w')
      | (Inr data, w') \<Rightarrow> updatePRLabels_loop slackWebhookUrl data w')"

section \<open>addDdayLabel\<close>

definition addDdayLabel :: "string \<Rightarrow> int \<Rightarrow> world \<Rightarrow> thrown option \<times> world" where
  "addDdayLabel slackWebhookUrl prNumber w =
     (case issues_addLabels prNumber [''D-3''] w of
        (Some e, w') \<Rightarrow> (Some e, w')
      | (None, w') \<Rightarrow>
          (case pulls_get prNumber w' of
             (Inl e, w'') \<Rightarrow> (Some e, w'')
           | (Inr pr, w'') \<Rightarrow> sendSlackNotification slackWebhookUrl (summary_of pr) ''D-3'' w''))"

section \<open>run\<close>

text \<open>
  What \<^verbatim>\<open>run\<close> reads from the hosting workflow: the outcome of the two required
  \<^verbatim>\<open>core.getInput\<close> calls, whether \<^verbatim>\<open>github.getOctokit\<close> and the
  \<^verbatim>\<open>context.repo\<close> getter throw, the event name and the number of
  \<^verbatim>\<open>context.payload.pull_request\<close> (\<open>None\<close> when the payload has none).
\<close>

record env =
  github_token :: "thrown + string"
  slack_webhook_url :: "thrown + string"
  getOctokit :: "string \<Rightarrow> thrown option"
  context_repo :: "thrown option"
  eventName :: string
  payload_pull_request :: "int option"

text \<open>Lines 18 to 31.\<close>

definition dispatch :: "env \<Rightarrow> string \<Rightarrow> world \<Rightarrow> thrown option \<times> world" where
  "dispatch e slackWebhookUrl w =
     (if eventName e = ''schedule'' \<or> eventName e = ''workflow_dispatch'' then
        updatePRLabels slackWebhookUrl w
      else if eventName e = ''pull_request'' then
        (case payload_pull_request e of
           None \<Rightarrow> (Some (ErrorObject ''Cannot read properties of undefined (reading 'number')''), w)
         | Some prNumber \<Rightarrow> addDdayLabel slackWebhookUrl prNumber w)
      else (None, w))"

text \<open>Lines 32 to 34.\<close>

definition catch :: "thrown option \<times> world \<Rightarrow> world" where
  "catch r =
     (case r of
        (Some (ErrorObject m), w') \<Rightarrow> w'\<lparr>failed := Some m\<rparr>
      | (_, w') \<Rightarrow> w')"

definition run :: "env \<Rightarrow> world \<Rightarrow> world" where
  "run e w =
     catch
       (case github_token e of
          Inl err \<Rightarrow> (Some err, w)
        | Inr token \<Rightarrow>
            (case slack_webhook_url e of
               Inl err \<Rightarrow> (Some err, w)
             | Inr slackWebhookUrl \<Rightarrow>
                 (case getOctokit e token of
                    Some err \<Rightarrow> (Some err, w)
                  | None \<Rightarrow>
                      (case context_repo e of
                         Some err \<Rightarrow> (Some err, w)
                       | None \<Rightarrow> dispatch e slackWebhookUrl w))))"

section \<open>Plans: the requests of a failure-free run\<close>

text \<open>
  Auxiliary notions for the proofs. \<open>plannedCalls\<close> lists the requests one iteration
  makes for a pull request when nothing is rejected, \<open>untilRejected\<close> cuts a list of
  requests after the first one the environment rejects, and \<open>advance\<close> is the pull
  request as the tracker holds it after its iteration went through.
\<close>

definition plannedCalls :: "string \<Rightarrow> pull \<Rightarrow> call list" where
  "plannedCalls slackWebhookUrl pr =
     (if Some (newLabel (labels pr)) \<noteq> currentLabel (labels pr)
      then [SetLabels (number pr) (writtenLabels pr),
            Post slackWebhookUrl (sendSlackNotification_message (summary_of pr) (newLabel (labels pr)))]
      else [])"

fun untilRejected :: "(call \<Rightarrow> thrown option) \<Rightarrow> call list \<Rightarrow> thrown option \<times> call list" where
  "untilRejected rej [] = (None, [])"
| "untilRejected rej (c # cs) =
     (case rej c of
        Some e \<Rightarrow> (Some e, [c])
      | None \<Rightarrow> (case untilRejected rej cs of (r, t) \<Rightarrow> (r, c # t)))"

definition advance :: "pull \<Rightarrow> pull" where
  "advance pr =
     (if Some (newLabel (labels pr)) \<noteq> currentLabel (labels pr)
      then pr\<lparr>labels := writtenLabels pr\<rparr> else pr)"

section \<open>Example worlds\<close>

text \<open>
  Six open pull requests: one without a countdown label, one at \<^verbatim>\<open>D-2\<close>, one at
  \<^verbatim>\<open>D-0\<close>, one whose countdown label is not a number, one at \<^verbatim>\<open>D-3\<close> and one at
  \<^verbatim>\<open>D-1\<close>; an environment that rejects nothing, and one that rejects the first
  label write.
\<close>

definition pr1 :: pull where
  "pr1 = \<lparr>number = 1, title = ''Parser'', html_url = ''u1'', user = None, labels = [''enhancement'']\<rparr>"

definition pr2 :: pull where
  "pr2 = \<lparr>number = 2, title = ''Lexer'', html_url = ''u2'', user = Some ''ann'', labels = [''D-2'', ''bug'']\<rparr>"

definition pr3 :: pull where
  "pr3 = \<lparr>number = 3, title = ''Docs'', html_url = ''u3'', user = Some ''bob'', labels = [''D-0'', ''bug'']\<rparr>"

definition pr4 :: pull where
  "pr4 = \<lparr>number = 4, title = ''Tests'', html_url = ''u4'', user = Some ''cy'', labels = [''D-urgent'']\<rparr>"

definition pr5 :: pull where
  "pr5 = \<lparr>number = 5, title = ''Build'', html_url = ''u5'', user = Some ''dee'', labels = [''D-3'']\<rparr>"

definition pr6 :: pull where
  "pr6 = \<lparr>number = 6, title = ''Lint'', html_url = ''u6'', user = Some ''eli'', labels = [''wip'', ''D-1'']\<rparr>"

definition exampleWorld :: world where
  "exampleWorld =
     \<lparr>pulls = [pr1, pr2, pr3, pr4, pr5, pr6], rejects = noReject, calls = [], failed = None\<rparr>"

definition idleWorld :: world where
  "idleWorld = \<lparr>pulls = [pr3], rejects = noReject, calls = [], failed = None\<rparr>"

definition failingWorld :: world where
  "failingWorld =
     \<lparr>pulls = [pr1, pr2, pr3, pr4, pr5, pr6],
      rejects = rejectOnly (SetLabels 1 [''D-3'', ''enhancement'']) (ErrorObject ''Bad credentials''),
      calls = [], failed = None\<rparr>"

definition noThrow :: "string \<Rightarrow> thrown option" where
  "noThrow token = None"

definition exampleEnv :: "string \<Rightarrow> int option \<Rightarrow> env" where
  "exampleEnv event pr =
     \<lparr>github_token = Inr ''token'', slack_webhook_url = Inr ''hook'', getOctokit = noThrow,
      context_repo = None, eventName = event, payload_pull_request = pr\<rparr>"

section \<open>Facts about numbers and numerals\<close>

lemma bits_le: "m < 2 ^ k \<Longrightarrow> bits m \<le> k"
proof (induction m arbitrary: k rule: bits.induct)
  case (1 n)
  show ?case
  proof (cases "n = 0")
    case True
    then show ?thesis by (simp add: bits.simps)
  next
    case False
    with "1.prems" obtain k' where k: "k = Suc k'" by (cases k) auto
    from "1.prems" k have "n div 2 < 2 ^ k'" by auto
    from "1.IH"[OF False this] show ?thesis using False k by (subst bits.simps) simp
  qed
qed

lemma roundDouble_exact: "m \<le> 2 ^ 53 \<Longrightarrow> roundDouble m = m"
proof (cases "m = 2 ^ 53")
  case True
  then show ?thesis by (simp add: roundDouble_def bits.simps Let_def)
next
  case False
  assume "m \<le> 2 ^ 53"
  with False have "m < 2 ^ 53" by simp
  from bits_le[OF this] show ?thesis by (simp add: roundDouble_def Let_def)
qed

lemma toNumber_safe: "\<bar>n\<bar> \<le> 2 ^ 53 \<Longrightarrow> toNumber n = Num n"
proof -
  assume a: "\<bar>n\<bar> \<le> 2 ^ 53"
  then have "nat \<bar>n\<bar> \<le> 2 ^ 53" by (simp add: nat_le_iff)
  then have r: "roundDouble (nat \<bar>n\<bar>) = nat \<bar>n\<bar>" and s: "nat \<bar>n\<bar> < 2 ^ 1024"
    by (simp_all add: roundDouble_exact)
  show ?thesis using s by (simp add: toNumber_def Let_def r)
qed

lemma toNumber_nonpos:
  assumes "n \<le> 0"
  shows "\<not> gt0 (toNumber n)"
proof (cases "n = 0")
  case True
  then show ?thesis by (simp add: toNumber_safe)
next
  case False
  with assms have "n < 0" by simp
  then show ?thesis by (simp add: toNumber_def Let_def)
qed

lemma digit_cases:
  "d < 10 \<Longrightarrow> d = 0 \<or> d = 1 \<or> d = 2 \<or> d = 3 \<or> d = 4 \<or> d = 5 \<or> d = 6 \<or> d = 7 \<or> d = 8 \<or> d = (9::nat)"
  by arith

lemma digitValue_digitChar: "d < 10 \<Longrightarrow> digitValue (digitChar d) = Some d"
  using digit_cases[of d] by (auto simp: digitChar_def digitValue_def)

lemma digitChar_plain:
  "d < 10 \<Longrightarrow> \<not> isWhiteSpace (digitChar d) \<and> digitChar d \<noteq> CHR ''+'' \<and> digitChar d \<noteq> CHR ''-''
      \<and> digitChar d \<noteq> CHR ''x'' \<and> digitChar d \<noteq> CHR ''X''"
  using digit_cases[of d] by (auto simp: digitChar_def isWhiteSpace_def)

lemma showNat_digits: "c \<in> set (showNat n) \<Longrightarrow> \<exists>d<10. c = digitChar d"
proof (induction n rule: showNat.induct)
  case (1 n)
  show ?case
  proof (cases "n < 10")
    case True
    with "1.prems" show ?thesis by (subst (asm) showNat.simps) auto
  next
    case False
    from "1.prems" have "c \<in> set (showNat (n div 10)) \<or> c = digitChar (n mod 10)"
      using False by (subst (asm) showNat.simps) auto
    then show ?thesis
    proof
      assume "c \<in> set (showNat (n div 10))"
      with "1.IH"[OF False] show ?thesis by simp
    next
      assume "c = digitChar (n mod 10)"
      moreover have "n mod 10 < 10" by simp
      ultimately show ?thesis by blast
    qed
  qed
qed

lemma showNat_nonempty: "showNat n \<noteq> []"
  by (subst showNat.simps) simp

lemma radixValue_snoc: "radixValue R (xs @ [c]) = radixValue R xs * R + the (digitValue c)"
  by (simp add: radixValue_def)

lemma radixValue_showNat: "radixValue 10 (showNat n) = n"
proof (induction n rule: showNat.induct)
  case (1 n)
  show ?case
  proof (cases "n < 10")
    case True
    then show ?thesis
      by (subst showNat.simps) (simp add: radixValue_def digitValue_digitChar)
  next
    case False
    have "n mod 10 < 10" by simp
    then have d: "digitValue (digitChar (n mod 10)) = Some (n mod 10)"
      by (rule digitValue_digitChar)
    from False have "showNat n = showNat (n div 10) @ [digitChar (n mod 10)]"
      by (subst showNat.simps) simp
    then show ?thesis using "1.IH"[OF False] d by (simp add: radixValue_snoc)
  qed
qed

lemma showNat_takeWhile: "takeWhile (isRadixDigit 10) (showNat n) = showNat n"
proof -
  have "\<forall>c\<in>set (showNat n). isRadixDigit 10 c"
  proof
    fix c assume "c \<in> set (showNat n)"
    then obtain d where "d < 10" "c = digitChar d" using showNat_digits by blast
    then show "isRadixDigit 10 c" by (simp add: isRadixDigit_def digitValue_digitChar)
  qed
  then show ?thesis by (simp add: takeWhile_eq_all_conv)
qed

lemma showNat_hd: "\<exists>d cs. d < 10 \<and> showNat n = digitChar d # cs"
proof -
  obtain c cs where e: "showNat n = c # cs" using showNat_nonempty[of n] by (cases "showNat n") auto
  then have "c \<in> set (showNat n)" by simp
  then obtain d where "d < 10" "c = digitChar d" using showNat_digits by blast
  with e show ?thesis by blast
qed

lemma showNat_not_hex: "take 2 (showNat n) \<noteq> ''0x'' \<and> take 2 (showNat n) \<noteq> ''0X''"
proof -
  have "c \<noteq> CHR ''x'' \<and> c \<noteq> CHR ''X''" if "c \<in> set (showNat n)" for c
  proof -
    from that obtain d where "d < 10" "c = digitChar d" using showNat_digits by blast
    then show ?thesis using digitChar_plain[of d] by simp
  qed
  then have "CHR ''x'' \<notin> set (showNat n)" "CHR ''X'' \<notin> set (showNat n)" by blast+
  moreover have "set (take 2 (showNat n)) \<subseteq> set (showNat n)" by (rule set_take_subset)
  ultimately show ?thesis by auto
qed

lemma parseDigits_showNat:
  "parseDigits neg (showNat n) = toNumber (if neg then - int n else int n)"
  by (simp add: parseDigits_def Let_def showNat_not_hex showNat_takeWhile radixValue_showNat
      showNat_nonempty)

lemma parseInt_showNat: "parseInt (showNat n) = toNumber (int n)"
proof -
  obtain d cs where d: "d < 10" and e: "showNat n = digitChar d # cs" using showNat_hd by blast
  have "parseInt (digitChar d # cs) = parseDigits False (digitChar d # cs)"
    using digitChar_plain[OF d] by (simp add: parseInt_def)
  then have "parseInt (showNat n) = parseDigits False (showNat n)" by (simp add: e)
  then show ?thesis by (simp add: parseDigits_showNat)
qed

lemma parseInt_minus_showNat: "parseInt (CHR ''-'' # showNat n) = toNumber (- int n)"
proof -
  have "\<not> isWhiteSpace CHR ''-''" by (simp add: isWhiteSpace_def)
  then show ?thesis by (simp add: parseInt_def parseDigits_showNat)
qed

lemma parseInt_decimal: "parseInt (decimal n) = toNumber n"
  by (simp add: decimal_def parseInt_showNat parseInt_minus_showNat)

lemma newLabel_decimal:
  assumes "currentLabel ls = Some (''D-'' @ decimal d)"
  shows "newLabel ls = (if gt0 (toNumber d) then ''D-'' @ numberToString (minus1 (toNumber d)) else ''D-0'')"
  using assms by (simp add: newLabel_def slice_def parseInt_decimal Let_def)

lemma decimal_2_53_plus_1: "decimal 9007199254740993 = ''9007199254740993''"
  by (simp add: decimal_def showNat.simps digitChar_def)

lemma toNumber_2_53_plus_1: "toNumber 9007199254740993 = Num 9007199254740992"
  by (simp add: toNumber_def roundDouble_def bits.simps Let_def)

section \<open>Requests and their traces\<close>

lemma find_number_in:
  "n \<in> set (map number ps) \<Longrightarrow> \<exists>p. find (\<lambda>p. number p = n) ps = Some p"
  by (induction ps) auto

lemma untilRejected_append:
  "untilRejected rej (xs @ ys) =
     (case untilRejected rej xs of
        (Some e, t) \<Rightarrow> (Some e, t)
      | (None, t) \<Rightarrow> (case untilRejected rej ys of (r, t') \<Rightarrow> (r, t @ t')))"
  by (induction xs) (auto split: option.splits prod.splits)

lemma untilRejected_subset: "set (snd (untilRejected rej cs)) \<subseteq> set cs"
  by (induction cs) (auto split: option.splits prod.splits)

lemma untilRejected_noReject: "untilRejected noReject cs = (None, cs)"
  by (induction cs) (auto simp: noReject_def)

text \<open>One iteration: result, trace and frame.\<close>

lemma body_trace:
  assumes "number pr \<in> set (map number (pulls w))"
  shows "fst (updatePRLabels_body url pr w) = fst (untilRejected (rejects w) (plannedCalls url pr)) \<and>
         calls (snd (updatePRLabels_body url pr w)) =
           calls w @ snd (untilRejected (rejects w) (plannedCalls url pr))"
proof -
  from find_number_in[OF assms] obtain p where "find (\<lambda>p. number p = number pr) (pulls w) = Some p"
    by blast
  then show ?thesis
    by (auto simp: updatePRLabels_body_def plannedCalls_def issues_setLabels_def request_def
        sendSlackNotification_def split: option.splits)
qed

lemma body_frame:
  "rejects (snd (updatePRLabels_body url pr w)) = rejects w \<and>
   failed (snd (updatePRLabels_body url pr w)) = failed w \<and>
   map number (pulls (snd (updatePRLabels_body url pr w))) = map number (pulls w)"
  by (auto simp: updatePRLabels_body_def issues_setLabels_def request_def
      sendSlackNotification_def comp_def split: option.splits intro!: map_cong)

lemma loop_trace:
  "set (map number prs) \<subseteq> set (map number (pulls w)) \<Longrightarrow>
   fst (updatePRLabels_loop url prs w) =
     fst (untilRejected (rejects w) (concat (map (plannedCalls url) prs))) \<and>
   calls (snd (updatePRLabels_loop url prs w)) =
     calls w @ snd (untilRejected (rejects w) (concat (map (plannedCalls url) prs)))"
proof (induction prs arbitrary: w)
  case Nil
  then show ?case by simp
next
  case (Cons pr prs)
  obtain r w' where b: "updatePRLabels_body url pr w = (r, w')" by (cases "updatePRLabels_body url pr w")
  from Cons.prems have in_w: "number pr \<in> set (map number (pulls w))" by simp
  from body_trace[OF in_w, of url] b
  have r: "r = fst (untilRejected (rejects w) (plannedCalls url pr))"
    and c: "calls w' = calls w @ snd (untilRejected (rejects w) (plannedCalls url pr))" by simp_all
  from body_frame[of url pr w] b
  have f: "rejects w' = rejects w" "map number (pulls w') = map number (pulls w)" by simp_all
  show ?case
  proof (cases r)
    case (Some e)
    with b r c show ?thesis
      by (cases "untilRejected (rejects w) (plannedCalls url pr)")
         (auto simp: untilRejected_append)
  next
    case None
    from Cons.prems f have "set (map number prs) \<subseteq> set (map number (pulls w'))" by simp
    from Cons.IH[OF this] f
    have "fst (updatePRLabels_loop url prs w') =
            fst (untilRejected (rejects w) (concat (map (plannedCalls url) prs)))"
      and "calls (snd (updatePRLabels_loop url prs w')) =
            calls w' @ snd (untilRejected (rejects w) (concat (map (plannedCalls url) prs)))"
      by simp_all
    with None b r c show ?thesis
      by (cases "untilRejected (rejects w) (plannedCalls url pr)";
          cases "untilRejected (rejects w) (concat (map (plannedCalls url) prs))")
         (auto simp: untilRejected_append)
  qed
qed

lemma loop_frame:
  "rejects (snd (updatePRLabels_loop url prs w)) = rejects w \<and>
   failed (snd (updatePRLabels_loop url prs w)) = failed w \<and>
   map number (pulls (snd (updatePRLabels_loop url prs w))) = map number (pulls w)"
proof (induction prs arbitrary: w)
  case Nil
  then show ?case by simp
next
  case (Cons pr prs)
  obtain r w' where b: "updatePRLabels_body url pr w = (r, w')" by (cases "updatePRLabels_body url pr w")
  with body_frame[of url pr w] Cons.IH[of w'] show ?case
    by (cases r) simp_all
qed

lemma updatePRLabels_trace:
  "fst (updatePRLabels url w) =
     fst (untilRejected (rejects w) (PullsList # concat (map (plannedCalls url) (pulls w)))) \<and>
   issued w (snd (updatePRLabels url w)) =
     snd (untilRejected (rejects w) (PullsList # concat (map (plannedCalls url) (pulls w))))"
proof (cases "rejects w PullsList")
  case (Some e)
  then show ?thesis by (simp add: updatePRLabels_def pulls_list_def request_def issued_def)
next
  case None
  let ?w = "w\<lparr>calls := calls w @ [PullsList]\<rparr>"
  have "set (map number (pulls w)) \<subseteq> set (map number (pulls ?w))" by simp
  from loop_trace[OF this, of url] None show ?thesis
    by (simp add: updatePRLabels_def pulls_list_def request_def issued_def split: prod.splits)
qed

lemma updatePRLabels_frame:
  "rejects (snd (updatePRLabels url w)) = rejects w \<and>
   failed (snd (updatePRLabels url w)) = failed w \<and>
   map number (pulls (snd (updatePRLabels url w))) = map number (pulls w)"
  using loop_frame[of url "pulls w" "w\<lparr>calls := calls w @ [PullsList]\<rparr>"]
  by (simp add: updatePRLabels_def pulls_list_def request_def split: option.splits)

lemma newLabel_startsWith: "startsWith (newLabel ls) ''D-''"
  by (simp add: newLabel_def startsWith_def Let_def split: option.splits)

lemma plannedCalls_setLabels:
  "SetLabels n ls \<in> set (plannedCalls url pr) \<Longrightarrow> n = number pr \<and> ls = writtenLabels pr"
  by (auto simp: plannedCalls_def split: if_splits)

lemma issued_setLabels:
  assumes "SetLabels n ls \<in> set (issued w (snd (updatePRLabels url w)))"
  shows "\<exists>pr\<in>set (pulls w). n = number pr \<and> ls = writtenLabels pr"
proof -
  from assms have "SetLabels n ls \<in> set (PullsList # concat (map (plannedCalls url) (pulls w)))"
    using updatePRLabels_trace[of url w] untilRejected_subset by fastforce
  then obtain pr where "pr \<in> set (pulls w)" "SetLabels n ls \<in> set (plannedCalls url pr)" by auto
  then show ?thesis using plannedCalls_setLabels by blast
qed

lemma updatePRLabels_noReject:
  assumes "rejects w = noReject"
  shows "fst (updatePRLabels url w) = None \<and>
         issued w (snd (updatePRLabels url w)) = PullsList # concat (map (plannedCalls url) (pulls w))"
  using updatePRLabels_trace[of url w] unfolding assms untilRejected_noReject by simp

lemma parseInt_zero: "parseInt ''0'' = Num 0"
proof -
  have "decimal 0 = ''0''" by (simp add: decimal_def showNat.simps digitChar_def)
  with parseInt_decimal[of 0] show ?thesis by (simp add: toNumber_safe)
qed

lemma untilRejected_rejected:
  "c \<in> set (snd (untilRejected rej cs)) \<Longrightarrow> rej c = Some e \<Longrightarrow>
   fst (untilRejected rej cs) = Some e \<and> last (snd (untilRejected rej cs)) = c"
proof (induction cs)
  case Nil
  then show ?case by simp
next
  case (Cons x xs)
  show ?case
  proof (cases "rej x")
    case (Some e')
    with Cons.prems show ?thesis by simp
  next
    case None
    with Cons.prems have "c \<noteq> x" by auto
    with Cons.prems None have "c \<in> set (snd (untilRejected rej xs))"
      by (auto split: prod.splits)
    from Cons.IH[OF this Cons.prems(2)] this None show ?thesis
      by (auto split: prod.splits)
  qed
qed

section \<open>The tracker after a failure-free run\<close>

lemma find_number_None: "n \<notin> set (map number ps) \<Longrightarrow> find (\<lambda>p. number p = n) ps = None"
  by (induction ps) auto

lemma find_number_self:
  "distinct (map number ps) \<Longrightarrow> q \<in> set ps \<Longrightarrow> find (\<lambda>p. number p = number q) ps = Some q"
  by (induction ps) (auto simp: image_iff)

lemma body_store:
  assumes "rejects w = noReject" and "number pr \<in> set (map number (pulls w))"
  shows "fst (updatePRLabels_body url pr w) = None \<and>
         pulls (snd (updatePRLabels_body url pr w)) =
           map (\<lambda>q. if Some (newLabel (labels pr)) \<noteq> currentLabel (labels pr) \<and> number q = number pr
                    then q\<lparr>labels := writtenLabels pr\<rparr> else q) (pulls w)"
proof -
  from find_number_in[OF assms(2)] obtain p where "find (\<lambda>p. number p = number pr) (pulls w) = Some p"
    by blast
  then show ?thesis using assms(1)
    by (auto simp: updatePRLabels_body_def issues_setLabels_def request_def
        sendSlackNotification_def noReject_def map_idI)
qed

lemma loop_store:
  assumes "rejects w = noReject" and "distinct (map number prs)"
    and "set (map number prs) \<subseteq> set (map number (pulls w))"
  shows "pulls (snd (updatePRLabels_loop url prs w)) =
           map (\<lambda>q. case find (\<lambda>p. number p = number q) prs of
                      None \<Rightarrow> q
                    | Some p \<Rightarrow> if Some (newLabel (labels p)) \<noteq> currentLabel (labels p)
                                then q\<lparr>labels := writtenLabels p\<rparr> else q) (pulls w)"
  using assms
proof (induction prs arbitrary: w)
  case Nil
  then show ?case by (simp add: map_idI)
next
  case (Cons pr prs)
  obtain r w' where b: "updatePRLabels_body url pr w = (r, w')" by (cases "updatePRLabels_body url pr w")
  from Cons.prems have in_w: "number pr \<in> set (map number (pulls w))" by simp
  from body_store[OF Cons.prems(1) in_w, of url] b
  have r: "r = None"
    and s: "pulls w' = map (\<lambda>q. if Some (newLabel (labels pr)) \<noteq> currentLabel (labels pr) \<and> number q = number pr
                    then q\<lparr>labels := writtenLabels pr\<rparr> else q) (pulls w)" by simp_all
  from body_frame[of url pr w] b Cons.prems(1)
  have f: "rejects w' = noReject" "map number (pulls w') = map number (pulls w)" by simp_all
  from Cons.prems f have "set (map number prs) \<subseteq> set (map number (pulls w'))"
    and d: "distinct (map number prs)" and nin: "number pr \<notin> set (map number prs)" by simp_all
  from Cons.IH[OF f(1) d this(1)]
  have ih: "pulls (snd (updatePRLabels_loop url prs w')) =
           map (\<lambda>q. case find (\<lambda>p. number p = number q) prs of
                      None \<Rightarrow> q
                    | Some p \<Rightarrow> if Some (newLabel (labels p)) \<noteq> currentLabel (labels p)
                                then q\<lparr>labels := writtenLabels p\<rparr> else q) (pulls w')" .
  have "pulls (snd (updatePRLabels_loop url (pr # prs) w)) = pulls (snd (updatePRLabels_loop url prs w'))"
    using b r by simp
  also have "\<dots> = map (\<lambda>q. case find (\<lambda>p. number p = number q) (pr # prs) of
                      None \<Rightarrow> q
                    | Some p \<Rightarrow> if Some (newLabel (labels p)) \<noteq> currentLabel (labels p)
                                then q\<lparr>labels := writtenLabels p\<rparr> else q) (pulls w)"
    unfolding ih s using find_number_None[OF nin] by (auto simp: comp_def intro!: map_cong)
  finally show ?case .
qed

lemma updatePRLabels_store:
  assumes "rejects w = noReject" and "distinct (map number (pulls w))"
  shows "pulls (snd (updatePRLabels url w)) = map advance (pulls w)"
proof -
  let ?w = "w\<lparr>calls := calls w @ [PullsList]\<rparr>"
  have "pulls (snd (updatePRLabels url w)) = pulls (snd (updatePRLabels_loop url (pulls w) ?w))"
    using assms(1) by (simp add: updatePRLabels_def pulls_list_def request_def noReject_def)
  also have "\<dots> = map (\<lambda>q. case find (\<lambda>p. number p = number q) (pulls w) of
                      None \<Rightarrow> q
                    | Some p \<Rightarrow> if Some (newLabel (labels p)) \<noteq> currentLabel (labels p)
                                then q\<lparr>labels := writtenLabels p\<rparr> else q) (pulls ?w)"
    using assms by (intro loop_store) simp_all
  also have "\<dots> = map advance (pulls w)"
    using find_number_self[OF assms(2)] by (auto simp: advance_def intro!: map_cong)
  finally show ?thesis .
qed

lemma decimal_small:
  "decimal 0 = ''0''" "decimal 1 = ''1''" "decimal 2 = ''2''" "decimal 3 = ''3''"
  by (simp_all add: decimal_def showNat.simps digitChar_def)

lemma newLabel_countdown:
  "currentLabel ls = None \<Longrightarrow> newLabel ls = ''D-3''"
  "currentLabel ls = Some ''D-3'' \<Longrightarrow> newLabel ls = ''D-2''"
  "currentLabel ls = Some ''D-2'' \<Longrightarrow> newLabel ls = ''D-1''"
  "currentLabel ls = Some ''D-1'' \<Longrightarrow> newLabel ls = ''D-0''"
  "currentLabel ls = Some ''D-0'' \<Longrightarrow> newLabel ls = ''D-0''"
proof -
  show "currentLabel ls = None \<Longrightarrow> newLabel ls = ''D-3''" by (simp add: newLabel_def)
  have n: "numberToString (Num 2) = ''2''" "numberToString (Num 1) = ''1''" "numberToString (Num 0) = ''0''"
    by (simp_all add: numberToString_def decimal_small)
  show "currentLabel ls = Some ''D-3'' \<Longrightarrow> newLabel ls = ''D-2''"
    using newLabel_decimal[of ls 3] by (simp add: decimal_small toNumber_safe n)
  show "currentLabel ls = Some ''D-2'' \<Longrightarrow> newLabel ls = ''D-1''"
    using newLabel_decimal[of ls 2] by (simp add: decimal_small toNumber_safe n)
  show "currentLabel ls = Some ''D-1'' \<Longrightarrow> newLabel ls = ''D-0''"
    using newLabel_decimal[of ls 1] by (simp add: decimal_small toNumber_safe n)
  show "currentLabel ls = Some ''D-0'' \<Longrightarrow> newLabel ls = ''D-0''"
    using newLabel_decimal[of ls 0] by (simp add: decimal_small toNumber_safe)
qed

lemma currentLabel_writtenLabels: "currentLabel (writtenLabels pr) = Some (newLabel (labels pr))"
  using newLabel_startsWith[of "labels pr"] by (simp add: currentLabel_def writtenLabels_def)

lemma body_noop:
  "currentLabel (labels pr) = Some ''D-0'' \<Longrightarrow> updatePRLabels_body url pr v = (None, v)"
  by (simp add: updatePRLabels_body_def newLabel_countdown)

lemma advance_countdown:
  "currentLabel (labels p) = Some ''D-0'' \<Longrightarrow> advance p = p"
  "currentLabel (labels p) = None \<Longrightarrow> currentLabel (labels (advance p)) = Some ''D-3''"
  "currentLabel (labels p) = Some ''D-3'' \<Longrightarrow> currentLabel (labels (advance p)) = Some ''D-2''"
  "currentLabel (labels p) = Some ''D-2'' \<Longrightarrow> currentLabel (labels (advance p)) = Some ''D-1''"
  "currentLabel (labels p) = Some ''D-1'' \<Longrightarrow> currentLabel (labels (advance p)) = Some ''D-0''"
  by (simp_all add: advance_def newLabel_countdown currentLabel_writtenLabels)

lemma loop_all_noop:
  "\<forall>q\<in>set prs. currentLabel (labels q) = Some ''D-0'' \<Longrightarrow> updatePRLabels_loop url prs v = (None, v)"
  by (induction prs) (simp_all add: body_noop)

section \<open>Requests of addDdayLabel and run\<close>



lemma addDdayLabel_no_listing: "PullsList \<notin> set (issued w (snd (addDdayLabel url n w)))"
  by (auto simp: addDdayLabel_def issues_addLabels_def pulls_get_def sendSlackNotification_def
      request_def issued_def split: option.splits)

lemma addDdayLabel_first_call: "AddLabels n [''D-3''] \<in> set (issued w (snd (addDdayLabel url n w)))"
  by (auto simp: addDdayLabel_def issues_addLabels_def pulls_get_def sendSlackNotification_def
      request_def issued_def split: option.splits)

lemma untilRejected_first: "c \<in> set (snd (untilRejected rej (c # cs)))"
  by (auto split: option.splits prod.splits)

lemma updatePRLabels_lists: "PullsList \<in> set (issued w (snd (updatePRLabels url w)))"
  using updatePRLabels_trace[of url w] untilRejected_first[of PullsList] by simp

lemma updatePRLabels_no_addLabels: "AddLabels n ls \<notin> set (issued w (snd (updatePRLabels url w)))"
proof
  assume "AddLabels n ls \<in> set (issued w (snd (updatePRLabels url w)))"
  then have "AddLabels n ls \<in> set (PullsList # concat (map (plannedCalls url) (pulls w)))"
    using updatePRLabels_trace[of url w] untilRejected_subset by fastforce
  then show False by (auto simp: plannedCalls_def split: if_splits)
qed

lemma issued_catch: "issued w (catch r) = issued w (snd r)"
  by (cases r) (auto simp: catch_def issued_def split: option.splits thrown.splits)

lemma issued_self: "issued w w = []"
  by (simp add: issued_def)

section \<open>The example worlds, evaluated\<close>

lemma example_fields:
  "number pr1 = 1" "number pr2 = 2" "number pr3 = 3" "number pr4 = 4" "number pr5 = 5" "number pr6 = 6"
  "labels pr1 = [''enhancement'']" "labels pr2 = [''D-2'', ''bug'']" "labels pr3 = [''D-0'', ''bug'']"
  "labels pr4 = [''D-urgent'']" "labels pr5 = [''D-3'']" "labels pr6 = [''wip'', ''D-1'']"
  by (simp_all add: pr1_def pr2_def pr3_def pr4_def pr5_def pr6_def)

lemma example_current:
  "currentLabel [''enhancement''] = None" "currentLabel [''D-2'', ''bug''] = Some ''D-2''"
  "currentLabel [''D-0'', ''bug''] = Some ''D-0''" "currentLabel [''D-urgent''] = Some ''D-urgent''"
  "currentLabel [''D-3''] = Some ''D-3''" "currentLabel [''wip'', ''D-1''] = Some ''D-1''"
  "currentLabel [''D-3'', ''enhancement''] = Some ''D-3''" "currentLabel [''D-1'', ''bug''] = Some ''D-1''"
  "currentLabel [''D-2''] = Some ''D-2''" "currentLabel [''D-0'', ''wip''] = Some ''D-0''"
  by (simp_all add: currentLabel_def startsWith_def)

lemma parseInt_urgent: "parseInt (slice ''D-urgent'' 2) = NaN"
  by (simp add: slice_def parseInt_def parseDigits_def isWhiteSpace_def isRadixDigit_def
      digitValue_def Let_def)

lemma example_next:
  "newLabel [''enhancement''] = ''D-3''" "newLabel [''D-2'', ''bug''] = ''D-1''"
  "newLabel [''D-0'', ''bug''] = ''D-0''" "newLabel [''D-urgent''] = ''D-0''"
  "newLabel [''D-3''] = ''D-2''" "newLabel [''wip'', ''D-1''] = ''D-0''"
proof -
  show "newLabel [''D-urgent''] = ''D-0''"
    using parseInt_urgent by (simp add: newLabel_def example_current)
qed (simp_all add: newLabel_countdown example_current)

lemmas example_eval = example_fields example_current example_next startsWith_def

lemma exampleWorld_fields:
  "pulls exampleWorld = [pr1, pr2, pr3, pr4, pr5, pr6]" "rejects exampleWorld = noReject"
  "calls exampleWorld = []" "failed exampleWorld = None"
  by (simp_all add: exampleWorld_def)

lemma exampleWorld_run:
  "fst (updatePRLabels ''hook'' exampleWorld) = None"
  "issued exampleWorld (snd (updatePRLabels ''hook'' exampleWorld)) =
     [PullsList,
      SetLabels 1 [''D-3'', ''enhancement''], Post ''hook'' (sendSlackNotification_message (summary_of pr1) ''D-3''),
      SetLabels 2 [''D-1'', ''bug''], Post ''hook'' (sendSlackNotification_message (summary_of pr2) ''D-1''),
      SetLabels 4 [''D-0''], Post ''hook'' (sendSlackNotification_message (summary_of pr4) ''D-0''),
      SetLabels 5 [''D-2''], Post ''hook'' (sendSlackNotification_message (summary_of pr5) ''D-2''),
      SetLabels 6 [''D-0'', ''wip''], Post ''hook'' (sendSlackNotification_message (summary_of pr6) ''D-0'')]"
  using updatePRLabels_noReject[of exampleWorld "''hook''"]
  by (simp_all add: exampleWorld_fields plannedCalls_def writtenLabels_def example_eval)

lemma exampleWorld_distinct: "distinct (map number (pulls exampleWorld))"
  by (simp add: exampleWorld_fields example_fields)

lemma failingWorld_fields:
  "pulls failingWorld = [pr1, pr2, pr3, pr4, pr5, pr6]"
  "rejects failingWorld = rejectOnly (SetLabels 1 [''D-3'', ''enhancement'']) (ErrorObject ''Bad credentials'')"
  "calls failingWorld = []" "failed failingWorld = None"
  by (simp_all add: failingWorld_def)

lemma failingWorld_run:
  "updatePRLabels ''hook'' failingWorld =
     (Some (ErrorObject ''Bad credentials''),
      failingWorld\<lparr>calls := [PullsList, SetLabels 1 [''D-3'', ''enhancement'']]\<rparr>)"
  by (simp add: updatePRLabels_def pulls_list_def request_def failingWorld_fields rejectOnly_def
      updatePRLabels_body_def issues_setLabels_def writtenLabels_def example_eval)

lemma exampleEnv_fields:
  "github_token (exampleEnv event pr) = Inr ''token''"
  "slack_webhook_url (exampleEnv event pr) = Inr ''hook''"
  "getOctokit (exampleEnv event pr) = noThrow" "context_repo (exampleEnv event pr) = None"
  "eventName (exampleEnv event pr) = event" "payload_pull_request (exampleEnv event pr) = pr"
  by (simp_all add: exampleEnv_def)

section \<open>Properties of the label transition\<close>

text \<open>
  C1, within the range where doubles are exact. With no label that starts with
  \<^verbatim>\<open>D-\<close> the next label is \<^verbatim>\<open>D-3\<close>; when the first such label is \<^verbatim>\<open>D-\<close>
  followed by the decimal numeral of an integer \<open>d\<close> with \<open>1 \<le> d \<le> 2 ^ 53\<close>, the next label
  is \<^verbatim>\<open>D-\<close> followed by the numeral of \<open>d - 1\<close>; when \<open>d \<le> 0\<close> it is \<^verbatim>\<open>D-0\<close>.
\<close>

theorem newLabel_transition:
  "(currentLabel ls = None \<longrightarrow> newLabel ls = ''D-3'') \<and>
   (currentLabel ls = Some (''D-'' @ decimal d) \<and> 1 \<le> d \<and> d \<le> 2 ^ 53 \<longrightarrow>
      newLabel ls = ''D-'' @ decimal (d - 1)) \<and>
   (currentLabel ls = Some (''D-'' @ decimal d) \<and> d \<le> 0 \<longrightarrow> newLabel ls = ''D-0'')"
proof (intro conjI impI)
  assume "currentLabel ls = None"
  then show "newLabel ls = ''D-3''" by (simp add: newLabel_def)
next
  assume a: "currentLabel ls = Some (''D-'' @ decimal d) \<and> 1 \<le> d \<and> d \<le> 2 ^ 53"
  then have n: "toNumber d = Num d" and m: "toNumber (d - 1) = Num (d - 1)"
    by (simp_all add: toNumber_safe)
  from a have "\<bar>d - 1\<bar> \<le> 2 ^ 53" by simp
  then have "numberToString (Num (d - 1)) = decimal (d - 1)" by (simp add: numberToString_def)
  with a n m show "newLabel ls = ''D-'' @ decimal (d - 1)" by (simp add: newLabel_decimal)
next
  assume a: "currentLabel ls = Some (''D-'' @ decimal d) \<and> d \<le> 0"
  then show "newLabel ls = ''D-0''" by (simp add: newLabel_decimal toNumber_nonpos)
qed

theorem newLabel_transition_witness:
  "currentLabel [''bug''] = None \<and> newLabel [''bug''] = ''D-3'' \<and>
   currentLabel [''D-2'', ''bug''] = Some (''D-'' @ decimal 2) \<and> (1::int) \<le> 2 \<and> (2::int) \<le> 2 ^ 53 \<and>
   newLabel [''D-2'', ''bug''] = ''D-'' @ decimal (2 - 1) \<and>
   currentLabel [''D-0''] = Some (''D-'' @ decimal 0) \<and> (0::int) \<le> 0 \<and> newLabel [''D-0''] = ''D-0''"
  using newLabel_transition [of "[''bug'']" 0] newLabel_transition [of "[''D-2'', ''bug'']" 2]
    newLabel_transition [of "[''D-0'']" 0]
  by (simp add: currentLabel_def startsWith_def decimal_def showNat.simps digitChar_def)

text \<open>
  C1 as stated fails beyond \<open>2 ^ 53\<close>: the label \<^verbatim>\<open>D-9007199254740993\<close> is
  \<^verbatim>\<open>D-\<close> followed by the numeral of \<open>d = 2 ^ 53 + 1\<close>, \<^verbatim>\<open>parseInt\<close> rounds it to
  \<open>2 ^ 53\<close>, and the next label is \<^verbatim>\<open>D-9007199254740991\<close>, not the numeral of \<open>d - 1\<close>.
\<close>

theorem newLabel_beyond_safe_integers:
  "currentLabel [''D-9007199254740993''] = Some (''D-'' @ decimal 9007199254740993) \<and>
   newLabel [''D-9007199254740993''] = ''D-9007199254740991'' \<and>
   newLabel [''D-9007199254740993''] \<noteq> ''D-'' @ decimal (9007199254740993 - 1)"
proof -
  have c: "currentLabel [''D-9007199254740993''] = Some (''D-'' @ decimal 9007199254740993)"
    by (simp add: currentLabel_def startsWith_def decimal_2_53_plus_1)
  have "minus1 (Num 9007199254740992) = Num 9007199254740991"
    by (simp add: toNumber_safe)
  moreover have "numberToString (Num 9007199254740991) = ''9007199254740991''"
    by (simp add: numberToString_def decimal_def showNat.simps digitChar_def)
  ultimately have n: "newLabel [''D-9007199254740993''] = ''D-9007199254740991''"
    using newLabel_decimal [OF c] by (simp add: toNumber_2_53_plus_1)
  have "decimal (9007199254740993 - 1) = ''9007199254740992''"
    by (simp add: decimal_def showNat.simps digitChar_def)
  with c n show ?thesis by simp
qed

section \<open>Properties of the notification payload\<close>

text \<open>
  C5. For every summary and label, the payload of \<^verbatim>\<open>sendSlackNotification\<close> has the
  text \<^verbatim>\<open>PR #<number> "<title>" has been labeled with <label>\<close> and, in this order, the
  header block \<^verbatim>\<open>*PR #<number> has been updated*\<close> and the block of the four fields
  \<^verbatim>\<open>*Title:*\<close>, \<^verbatim>\<open>*Label:*\<close>, \<^verbatim>\<open>*Author:*\<close> and \<^verbatim>\<open>*Link:*\<close>; the block
  \<^verbatim>\<open>:warning: *This PR is due today!* :warning:\<close> follows when the label is \<^verbatim>\<open>D-0\<close>
  and nothing follows otherwise, so that block is in the payload exactly for \<^verbatim>\<open>D-0\<close>.
\<close>

theorem message_due_today_iff:
  "msg_text (sendSlackNotification_message pr label) =
     ''PR #'' @ numberToString (Num (sm_number pr)) @ '' '' @ [CHR 0x22] @ sm_title pr @ [CHR 0x22]
       @ '' has been labeled with '' @ label \<and>
   msg_blocks (sendSlackNotification_message pr label) =
     [SectionText (''*PR #'' @ numberToString (Num (sm_number pr)) @ '' has been updated*''),
      SectionFields [''*Title:* '' @ sm_title pr, ''*Label:* '' @ label,
                     ''*Author:* '' @ sm_login pr, ''*Link:* <'' @ sm_html_url pr @ ''|View PR>'']]
     @ (if label = ''D-0'' then [SectionText '':warning: *This PR is due today!* :warning:''] else []) \<and>
   (SectionText '':warning: *This PR is due today!* :warning:''
      \<in> set (msg_blocks (sendSlackNotification_message pr label)) \<longleftrightarrow> label = ''D-0'')"
  by (simp add: sendSlackNotification_message_def Let_def)

text \<open>
  The payloads for pull request 3 of the examples with the labels \<^verbatim>\<open>D-0\<close> and
  \<^verbatim>\<open>D-1\<close>, written out.
\<close>

theorem message_due_today_iff_witness:
  "sendSlackNotification_message (summary_of pr3) ''D-0'' =
     \<lparr>msg_text = ''PR #3 '' @ [CHR 0x22] @ ''Docs'' @ [CHR 0x22] @ '' has been labeled with D-0'',
      msg_blocks =
        [SectionText ''*PR #3 has been updated*'',
         SectionFields [''*Title:* Docs'', ''*Label:* D-0'', ''*Author:* bob'', ''*Link:* <u3|View PR>''],
         SectionText '':warning: *This PR is due today!* :warning:'']\<rparr> \<and>
   sendSlackNotification_message (summary_of pr3) ''D-1'' =
     \<lparr>msg_text = ''PR #3 '' @ [CHR 0x22] @ ''Docs'' @ [CHR 0x22] @ '' has been labeled with D-1'',
      msg_blocks =
        [SectionText ''*PR #3 has been updated*'',
         SectionFields [''*Title:* Docs'', ''*Label:* D-1'', ''*Author:* bob'', ''*Link:* <u3|View PR>'']]\<rparr>"
proof -
  have n: "numberToString (Num 3) = ''3''"
    by (simp add: numberToString_def decimal_small)
  have s: "sm_number (summary_of pr3) = 3" "sm_title (summary_of pr3) = ''Docs''"
    "sm_login (summary_of pr3) = ''bob''" "sm_html_url (summary_of pr3) = ''u3''"
    by (simp_all add: summary_of_def pr3_def)
  have e: "m = \<lparr>msg_text = msg_text m, msg_blocks = msg_blocks m\<rparr>" for m :: message
    by simp
  show ?thesis
    using message_due_today_iff [where pr = "summary_of pr3" and label = "''D-0''"]
      message_due_today_iff [where pr = "summary_of pr3" and label = "''D-1''"]
    by (subst e, subst (2) e) (simp add: n s)
qed

section \<open>Properties of the batch updater\<close>

text \<open>
  C2. In a run of \<^verbatim>\<open>updatePRLabels\<close> in which no request is rejected, the requests are
  the listing followed, pull request by pull request in listing order, by a label write and
  a notification when the computed next label differs from the current countdown label
  (or there is none), and by nothing at all when it equals it. So a notification is sent
  for a pull request exactly when its label changes, always right after the write.
\<close>

theorem updatePRLabels_notifies_iff_changed:
  assumes "rejects w = noReject"
  shows "fst (updatePRLabels url w) = None \<and>
         issued w (snd (updatePRLabels url w)) =
           PullsList # concat (map (\<lambda>pr.
             if Some (newLabel (labels pr)) \<noteq> currentLabel (labels pr)
             then [SetLabels (number pr)
                     (newLabel (labels pr) # filter (\<lambda>label. \<not> startsWith label ''D-'') (labels pr)),
                   Post url (sendSlackNotification_message (summary_of pr) (newLabel (labels pr)))]
             else []) (pulls w))"
proof -
  have "plannedCalls url = (\<lambda>pr.
             if Some (newLabel (labels pr)) \<noteq> currentLabel (labels pr)
             then [SetLabels (number pr)
                     (newLabel (labels pr) # filter (\<lambda>label. \<not> startsWith label ''D-'') (labels pr)),
                   Post url (sendSlackNotification_message (summary_of pr) (newLabel (labels pr)))]
             else [])"
    by (simp add: fun_eq_iff plannedCalls_def writtenLabels_def)
  with updatePRLabels_noReject[OF assms, of url] show ?thesis by simp
qed

theorem updatePRLabels_notifies_iff_changed_witness:
  "rejects exampleWorld = noReject \<and>
   fst (updatePRLabels ''hook'' exampleWorld) = None \<and>
   issued exampleWorld (snd (updatePRLabels ''hook'' exampleWorld)) =
     [PullsList,
      SetLabels 1 [''D-3'', ''enhancement''], Post ''hook'' (sendSlackNotification_message (summary_of pr1) ''D-3''),
      SetLabels 2 [''D-1'', ''bug''], Post ''hook'' (sendSlackNotification_message (summary_of pr2) ''D-1''),
      SetLabels 4 [''D-0''], Post ''hook'' (sendSlackNotification_message (summary_of pr4) ''D-0''),
      SetLabels 5 [''D-2''], Post ''hook'' (sendSlackNotification_message (summary_of pr5) ''D-2''),
      SetLabels 6 [''D-0'', ''wip''], Post ''hook'' (sendSlackNotification_message (summary_of pr6) ''D-0'')]"
  using updatePRLabels_notifies_iff_changed [where w = exampleWorld and url = "''hook''"]
  by (simp add: exampleWorld_fields example_eval)

text \<open>
  C3. Every label write that \<^verbatim>\<open>updatePRLabels\<close> issues, whatever the environment rejects,
  is for a listed pull request, and the labels in it that do not start with \<^verbatim>\<open>D-\<close> are,
  as a set, the labels of that pull request (as listed) that do not start with \<^verbatim>\<open>D-\<close>.
\<close>

theorem setLabels_keeps_other_labels:
  assumes "SetLabels n ls \<in> set (issued w (snd (updatePRLabels url w)))"
  shows "\<exists>pr\<in>set (pulls w). number pr = n \<and>
           {l \<in> set ls. \<not> startsWith l ''D-''} = {l \<in> set (labels pr). \<not> startsWith l ''D-''}"
proof -
  from issued_setLabels[OF assms] obtain pr
    where pr: "pr \<in> set (pulls w)" "n = number pr" "ls = writtenLabels pr" by blast
  have "{l \<in> set (writtenLabels pr). \<not> startsWith l ''D-''} = {l \<in> set (labels pr). \<not> startsWith l ''D-''}"
    using newLabel_startsWith[of "labels pr"] by (auto simp: writtenLabels_def)
  with pr show ?thesis by blast
qed

theorem setLabels_keeps_other_labels_witness:
  "SetLabels 2 [''D-1'', ''bug''] \<in> set (issued exampleWorld (snd (updatePRLabels ''hook'' exampleWorld))) \<and>
   (\<exists>pr\<in>set (pulls exampleWorld). number pr = 2 \<and>
      {l \<in> set [''D-1'', ''bug'']. \<not> startsWith l ''D-''} = {l \<in> set (labels pr). \<not> startsWith l ''D-''})"
  using setLabels_keeps_other_labels [where n = 2 and ls = "[''D-1'', ''bug'']" and w = exampleWorld and url = "''hook''"]
  by (simp add: exampleWorld_run)

text \<open>
  C9. Every label write that \<^verbatim>\<open>updatePRLabels\<close> issues carries exactly one label that
  starts with \<^verbatim>\<open>D-\<close>, the computed next label of the pull request it is for, however
  many such labels the pull request had.
\<close>

theorem setLabels_single_countdown_label:
  assumes "SetLabels n ls \<in> set (issued w (snd (updatePRLabels url w)))"
  shows "\<exists>pr\<in>set (pulls w). number pr = n \<and>
           filter (\<lambda>l. startsWith l ''D-'') ls = [newLabel (labels pr)]"
proof -
  from issued_setLabels[OF assms] obtain pr
    where pr: "pr \<in> set (pulls w)" "n = number pr" "ls = writtenLabels pr" by blast
  have "filter (\<lambda>l. startsWith l ''D-'') (writtenLabels pr) = [newLabel (labels pr)]"
    using newLabel_startsWith[of "labels pr"] by (simp add: writtenLabels_def)
  with pr show ?thesis by blast
qed

theorem setLabels_single_countdown_label_witness:
  "SetLabels 6 [''D-0'', ''wip''] \<in> set (issued exampleWorld (snd (updatePRLabels ''hook'' exampleWorld))) \<and>
   (\<exists>pr\<in>set (pulls exampleWorld). number pr = 6 \<and>
      filter (\<lambda>l. startsWith l ''D-'') [''D-0'', ''wip''] = [newLabel (labels pr)])"
  using setLabels_single_countdown_label [where n = 6 and ls = "[''D-0'', ''wip'']" and w = exampleWorld and url = "''hook''"]
  by (simp add: exampleWorld_run)

text \<open>
  C10. When the first label of a listed pull request that starts with \<^verbatim>\<open>D-\<close> has a
  rest that \<^verbatim>\<open>parseInt\<close> turns into \<^verbatim>\<open>NaN\<close>, the computed next label is
  \<^verbatim>\<open>D-0\<close>, which differs from that label, and a run in which nothing is rejected
  writes \<^verbatim>\<open>D-0\<close> with the other labels and sends the \<^verbatim>\<open>D-0\<close> notification.
\<close>

theorem malformed_label_becomes_D0:
  assumes "rejects w = noReject" and "pr \<in> set (pulls w)"
    and "currentLabel (labels pr) = Some name" and "parseInt (slice name 2) = NaN"
  shows "newLabel (labels pr) = ''D-0'' \<and> name \<noteq> ''D-0'' \<and>
         fst (updatePRLabels url w) = None \<and>
         SetLabels (number pr) (''D-0'' # filter (\<lambda>l. \<not> startsWith l ''D-'') (labels pr))
           \<in> set (issued w (snd (updatePRLabels url w))) \<and>
         Post url (sendSlackNotification_message (summary_of pr) ''D-0'')
           \<in> set (issued w (snd (updatePRLabels url w)))"
proof -
  from assms(3,4) have n: "newLabel (labels pr) = ''D-0''" by (simp add: newLabel_def)
  from assms(4) have d: "name \<noteq> ''D-0''" by (auto simp: slice_def parseInt_zero)
  from n d assms(3) have "plannedCalls url pr =
      [SetLabels (number pr) (''D-0'' # filter (\<lambda>l. \<not> startsWith l ''D-'') (labels pr)),
       Post url (sendSlackNotification_message (summary_of pr) ''D-0'')]"
    by (simp add: plannedCalls_def writtenLabels_def)
  with assms(2) have
    "SetLabels (number pr) (''D-0'' # filter (\<lambda>l. \<not> startsWith l ''D-'') (labels pr))
       \<in> set (concat (map (plannedCalls url) (pulls w)))"
    "Post url (sendSlackNotification_message (summary_of pr) ''D-0'')
       \<in> set (concat (map (plannedCalls url) (pulls w)))"
    by force+
  with n d updatePRLabels_noReject[OF assms(1), of url] show ?thesis by simp
qed

theorem malformed_label_becomes_D0_witness:
  "rejects exampleWorld = noReject \<and> pr4 \<in> set (pulls exampleWorld) \<and>
   currentLabel (labels pr4) = Some ''D-urgent'' \<and> parseInt (slice ''D-urgent'' 2) = NaN \<and>
   newLabel (labels pr4) = ''D-0'' \<and> ''D-urgent'' \<noteq> ''D-0'' \<and>
   fst (updatePRLabels ''hook'' exampleWorld) = None \<and>
   SetLabels (number pr4) (''D-0'' # filter (\<lambda>l. \<not> startsWith l ''D-'') (labels pr4))
     \<in> set (issued exampleWorld (snd (updatePRLabels ''hook'' exampleWorld))) \<and>
   Post ''hook'' (sendSlackNotification_message (summary_of pr4) ''D-0'')
     \<in> set (issued exampleWorld (snd (updatePRLabels ''hook'' exampleWorld)))"
  using malformed_label_becomes_D0 [where w = exampleWorld and pr = pr4 and name = "''D-urgent''" and url = "''hook''"]
  by (simp add: exampleWorld_fields example_eval parseInt_urgent)

text \<open>
  C7, as the code has it. A request of \<^verbatim>\<open>updatePRLabels\<close> that the environment rejects
  is the last request of the run: the run throws what the request threw, nothing is
  requested for the remaining pull requests, and the \<^verbatim>\<open>catch\<close> of \<^verbatim>\<open>run\<close> reports the
  message of an \<^verbatim>\<open>Error\<close> through \<^verbatim>\<open>core.setFailed\<close>.
\<close>

theorem rejected_request_ends_batch:
  assumes "c \<in> set (issued w (snd (updatePRLabels url w)))" and "rejects w c = Some e"
  shows "fst (updatePRLabels url w) = Some e \<and>
         last (issued w (snd (updatePRLabels url w))) = c \<and>
         failed (catch (updatePRLabels url w)) =
           (case e of ErrorObject m \<Rightarrow> Some m | OtherValue \<Rightarrow> failed w)"
proof -
  from assms updatePRLabels_trace[of url w]
    untilRejected_rejected[of c "rejects w" "PullsList # concat (map (plannedCalls url) (pulls w))" e]
  have r: "fst (updatePRLabels url w) = Some e" and l: "last (issued w (snd (updatePRLabels url w))) = c"
    by simp_all
  obtain r' w' where u: "updatePRLabels url w = (r', w')" by (cases "updatePRLabels url w")
  with updatePRLabels_frame[of url w] have "failed w' = failed w" by simp
  with u r have "failed (catch (updatePRLabels url w)) =
           (case e of ErrorObject m \<Rightarrow> Some m | OtherValue \<Rightarrow> failed w)"
    by (simp add: catch_def split: thrown.splits)
  with r l show ?thesis by simp
qed

theorem rejected_request_ends_batch_witness:
  "SetLabels 1 [''D-3'', ''enhancement''] \<in> set (issued failingWorld (snd (updatePRLabels ''hook'' failingWorld))) \<and>
   rejects failingWorld (SetLabels 1 [''D-3'', ''enhancement'']) = Some (ErrorObject ''Bad credentials'') \<and>
   fst (updatePRLabels ''hook'' failingWorld) = Some (ErrorObject ''Bad credentials'') \<and>
   last (issued failingWorld (snd (updatePRLabels ''hook'' failingWorld))) = SetLabels 1 [''D-3'', ''enhancement''] \<and>
   failed (catch (updatePRLabels ''hook'' failingWorld)) = Some ''Bad credentials''"
  using rejected_request_ends_batch [where c = "SetLabels 1 [''D-3'', ''enhancement'']"
      and w = failingWorld and url = "''hook''" and e = "ErrorObject ''Bad credentials''"]
  by (simp add: failingWorld_run failingWorld_fields issued_def rejectOnly_def)

text \<open>
  C7 as stated fails: when the label write for pull request 1 is rejected, the run ends
  with that error after the listing and that one write; pull request 2, at \<^verbatim>\<open>D-2\<close> and
  due to move to \<^verbatim>\<open>D-1\<close>, and the pull requests after it keep their labels and get no
  request.
\<close>

theorem rejected_write_leaves_rest_unprocessed:
  "fst (updatePRLabels ''hook'' failingWorld) = Some (ErrorObject ''Bad credentials'') \<and>
   issued failingWorld (snd (updatePRLabels ''hook'' failingWorld)) =
     [PullsList, SetLabels 1 [''D-3'', ''enhancement'']] \<and>
   pulls (snd (updatePRLabels ''hook'' failingWorld)) = [pr1, pr2, pr3, pr4, pr5, pr6] \<and>
   currentLabel (labels pr2) = Some ''D-2'' \<and> newLabel (labels pr2) = ''D-1''"
  by (simp add: failingWorld_run failingWorld_fields issued_def example_eval)

text \<open>
  C4. In a run in which nothing is rejected, over pull requests with distinct numbers, a
  pull request whose countdown label is \<^verbatim>\<open>D-0\<close> is unchanged and its iteration makes no
  request in any world; a pull request with no countdown label ends at \<^verbatim>\<open>D-3\<close>, one at
  \<^verbatim>\<open>D-3\<close> at \<^verbatim>\<open>D-2\<close>, one at \<^verbatim>\<open>D-2\<close> at \<^verbatim>\<open>D-1\<close> and one at \<^verbatim>\<open>D-1\<close> at
  \<^verbatim>\<open>D-0\<close>; and when every listed pull request is at \<^verbatim>\<open>D-0\<close> the run only lists.
  The conditions hold again after the run, so the same applies to the next one.
\<close>

theorem countdown_fixed_point_only_at_D0:
  assumes "rejects w = noReject" and "distinct (map number (pulls w))" and "i < length (pulls w)"
  shows "number (pulls (snd (updatePRLabels url w)) ! i) = number (pulls w ! i) \<and>
    (currentLabel (labels (pulls w ! i)) = Some ''D-0'' \<longrightarrow>
       pulls (snd (updatePRLabels url w)) ! i = pulls w ! i \<and>
       updatePRLabels_body url (pulls w ! i) v = (None, v)) \<and>
    (currentLabel (labels (pulls w ! i)) = None \<longrightarrow>
       currentLabel (labels (pulls (snd (updatePRLabels url w)) ! i)) = Some ''D-3'') \<and>
    (currentLabel (labels (pulls w ! i)) = Some ''D-3'' \<longrightarrow>
       currentLabel (labels (pulls (snd (updatePRLabels url w)) ! i)) = Some ''D-2'') \<and>
    (currentLabel (labels (pulls w ! i)) = Some ''D-2'' \<longrightarrow>
       currentLabel (labels (pulls (snd (updatePRLabels url w)) ! i)) = Some ''D-1'') \<and>
    (currentLabel (labels (pulls w ! i)) = Some ''D-1'' \<longrightarrow>
       currentLabel (labels (pulls (snd (updatePRLabels url w)) ! i)) = Some ''D-0'') \<and>
    ((\<forall>q\<in>set (pulls w). currentLabel (labels q) = Some ''D-0'') \<longrightarrow>
       updatePRLabels url w = (None, w\<lparr>calls := calls w @ [PullsList]\<rparr>))"
proof -
  have p: "pulls (snd (updatePRLabels url w)) ! i = advance (pulls w ! i)"
    using updatePRLabels_store[OF assms(1,2), of url] assms(3) by simp
  have n: "number (advance (pulls w ! i)) = number (pulls w ! i)" by (simp add: advance_def)
  have a: "updatePRLabels url w = (None, w\<lparr>calls := calls w @ [PullsList]\<rparr>)"
    if "\<forall>q\<in>set (pulls w). currentLabel (labels q) = Some ''D-0''"
    using that assms(1) loop_all_noop[of "pulls w" url "w\<lparr>calls := calls w @ [PullsList]\<rparr>"]
    by (simp add: updatePRLabels_def pulls_list_def request_def noReject_def)
  show ?thesis unfolding p using n a by (simp add: advance_countdown body_noop)
qed

theorem countdown_fixed_point_only_at_D0_witness:
  "rejects exampleWorld = noReject \<and> distinct (map number (pulls exampleWorld)) \<and>
   currentLabel (labels (pulls exampleWorld ! 0)) = None \<and>
   currentLabel (labels (pulls (snd (updatePRLabels ''hook'' exampleWorld)) ! 0)) = Some ''D-3'' \<and>
   currentLabel (labels (pulls exampleWorld ! 4)) = Some ''D-3'' \<and>
   currentLabel (labels (pulls (snd (updatePRLabels ''hook'' exampleWorld)) ! 4)) = Some ''D-2'' \<and>
   currentLabel (labels (pulls exampleWorld ! 1)) = Some ''D-2'' \<and>
   currentLabel (labels (pulls (snd (updatePRLabels ''hook'' exampleWorld)) ! 1)) = Some ''D-1'' \<and>
   currentLabel (labels (pulls exampleWorld ! 5)) = Some ''D-1'' \<and>
   currentLabel (labels (pulls (snd (updatePRLabels ''hook'' exampleWorld)) ! 5)) = Some ''D-0'' \<and>
   currentLabel (labels (pulls exampleWorld ! 2)) = Some ''D-0'' \<and>
   pulls (snd (updatePRLabels ''hook'' exampleWorld)) ! 2 = pulls exampleWorld ! 2 \<and>
   updatePRLabels_body ''hook'' (pulls exampleWorld ! 2) exampleWorld = (None, exampleWorld) \<and>
   rejects idleWorld = noReject \<and> pulls idleWorld = [pr3] \<and>
   currentLabel (labels pr3) = Some ''D-0'' \<and>
   updatePRLabels ''hook'' idleWorld = (None, idleWorld\<lparr>calls := calls idleWorld @ [PullsList]\<rparr>)"
proof -
  note run = countdown_fixed_point_only_at_D0 [where w = exampleWorld and url = "''hook''"
      and v = exampleWorld, OF exampleWorld_fields(2) exampleWorld_distinct]
  have c: "currentLabel (labels (pulls exampleWorld ! 0)) = None"
    "currentLabel (labels (pulls exampleWorld ! 4)) = Some ''D-3''"
    "currentLabel (labels (pulls exampleWorld ! 1)) = Some ''D-2''"
    "currentLabel (labels (pulls exampleWorld ! 5)) = Some ''D-1''"
    "currentLabel (labels (pulls exampleWorld ! 2)) = Some ''D-0''"
    by (simp_all add: exampleWorld_fields example_fields example_current)
  have len: "0 < length (pulls exampleWorld)" "4 < length (pulls exampleWorld)"
    "1 < length (pulls exampleWorld)" "5 < length (pulls exampleWorld)"
    "2 < length (pulls exampleWorld)"
    by (simp_all add: exampleWorld_fields)
  have 0: "currentLabel (labels (pulls (snd (updatePRLabels ''hook'' exampleWorld)) ! 0)) = Some ''D-3''"
    using run [OF len(1)] c(1) by blast
  have 4: "currentLabel (labels (pulls (snd (updatePRLabels ''hook'' exampleWorld)) ! 4)) = Some ''D-2''"
    using run [OF len(2)] c(2) by blast
  have 1: "currentLabel (labels (pulls (snd (updatePRLabels ''hook'' exampleWorld)) ! 1)) = Some ''D-1''"
    using run [OF len(3)] c(3) by blast
  have 5: "currentLabel (labels (pulls (snd (updatePRLabels ''hook'' exampleWorld)) ! 5)) = Some ''D-0''"
    using run [OF len(4)] c(4) by blast
  have 2: "pulls (snd (updatePRLabels ''hook'' exampleWorld)) ! 2 = pulls exampleWorld ! 2 \<and>
           updatePRLabels_body ''hook'' (pulls exampleWorld ! 2) exampleWorld = (None, exampleWorld)"
    using run [OF len(5)] c(5) by blast
  have i: "rejects idleWorld = noReject" "pulls idleWorld = [pr3]"
    "distinct (map number (pulls idleWorld))" "0 < length (pulls idleWorld)"
    by (simp_all add: idleWorld_def)
  have 3: "currentLabel (labels pr3) = Some ''D-0''"
    by (simp add: example_fields example_current)
  with i(2) have "\<forall>q\<in>set (pulls idleWorld). currentLabel (labels q) = Some ''D-0''" by simp
  with countdown_fixed_point_only_at_D0 [where w = idleWorld and url = "''hook''" and v = idleWorld
      and i = 0, OF i(1) i(3) i(4)]
  have 6: "updatePRLabels ''hook'' idleWorld = (None, idleWorld\<lparr>calls := calls idleWorld @ [PullsList]\<rparr>)"
    by blast
  from exampleWorld_fields(2) exampleWorld_distinct c 0 4 1 5 2 i(1,2) 3 6 show ?thesis by blast
qed

section \<open>Properties of the initializer and the dispatcher\<close>



text \<open>
  C6. Once the inputs are read and the client is built, \<^verbatim>\<open>run\<close> behaves as
  \<^verbatim>\<open>updatePRLabels\<close> under its \<^verbatim>\<open>catch\<close> when the event is \<^verbatim>\<open>schedule\<close> or
  \<^verbatim>\<open>workflow_dispatch\<close>, as \<^verbatim>\<open>addDdayLabel\<close> for the pull request number of the payload
  when the event is \<^verbatim>\<open>pull_request\<close>, and leaves the world as it is (no request, no
  failure reported) for any other event. The listing request is made exactly for the first
  two events, the request that adds \<^verbatim>\<open>D-3\<close> exactly for \<^verbatim>\<open>pull_request\<close>.
\<close>

theorem run_dispatch:
  assumes "github_token e = Inr token" and "slack_webhook_url e = Inr url"
    and "getOctokit e token = None" and "context_repo e = None"
  shows "(eventName e = ''schedule'' \<or> eventName e = ''workflow_dispatch'' \<longrightarrow>
            run e w = catch (updatePRLabels url w)) \<and>
         (eventName e = ''pull_request'' \<and> payload_pull_request e = Some n \<longrightarrow>
            run e w = catch (addDdayLabel url n w)) \<and>
         (eventName e \<noteq> ''schedule'' \<and> eventName e \<noteq> ''workflow_dispatch'' \<and>
          eventName e \<noteq> ''pull_request'' \<longrightarrow> run e w = w) \<and>
         (PullsList \<in> set (issued w (run e w)) \<longleftrightarrow>
            eventName e = ''schedule'' \<or> eventName e = ''workflow_dispatch'') \<and>
         (payload_pull_request e = Some n \<longrightarrow>
            (AddLabels n [''D-3''] \<in> set (issued w (run e w)) \<longleftrightarrow> eventName e = ''pull_request''))"
proof -
  have r: "run e w = catch (dispatch e url w)" using assms by (simp add: run_def)
  have 1: "run e w = catch (updatePRLabels url w)"
    if "eventName e = ''schedule'' \<or> eventName e = ''workflow_dispatch''"
    using that r by (auto simp: dispatch_def)
  have 2: "run e w = catch (addDdayLabel url n w)"
    if "eventName e = ''pull_request'' \<and> payload_pull_request e = Some n"
    using that r by (simp add: dispatch_def)
  have 3: "run e w = w"
    if "eventName e \<noteq> ''schedule'' \<and> eventName e \<noteq> ''workflow_dispatch'' \<and> eventName e \<noteq> ''pull_request''"
    using that r by (simp add: dispatch_def catch_def)
  have 4: "PullsList \<in> set (issued w (run e w)) \<longleftrightarrow>
            eventName e = ''schedule'' \<or> eventName e = ''workflow_dispatch''"
  proof (cases "eventName e = ''schedule'' \<or> eventName e = ''workflow_dispatch''")
    case True
    with 1 show ?thesis by (simp add: issued_catch updatePRLabels_lists)
  next
    case False
    then show ?thesis using r addDdayLabel_no_listing
      by (auto simp: dispatch_def issued_catch issued_self split: option.splits)
  qed
  have 5: "AddLabels n [''D-3''] \<in> set (issued w (run e w)) \<longleftrightarrow> eventName e = ''pull_request''"
    if p: "payload_pull_request e = Some n"
  proof (cases "eventName e = ''pull_request''")
    case True
    with 2 p show ?thesis by (simp add: issued_catch addDdayLabel_first_call)
  next
    case False
    then show ?thesis using r updatePRLabels_no_addLabels
      by (auto simp: dispatch_def issued_catch issued_self)
  qed
  from 1 2 3 4 5 show ?thesis by blast
qed

theorem run_dispatch_witness:
  "github_token (exampleEnv ''schedule'' None) = Inr ''token'' \<and>
   slack_webhook_url (exampleEnv ''schedule'' None) = Inr ''hook'' \<and>
   getOctokit (exampleEnv ''schedule'' None) ''token'' = None \<and>
   context_repo (exampleEnv ''schedule'' None) = None \<and>
   run (exampleEnv ''schedule'' None) exampleWorld = catch (updatePRLabels ''hook'' exampleWorld) \<and>
   run (exampleEnv ''workflow_dispatch'' None) exampleWorld = catch (updatePRLabels ''hook'' exampleWorld) \<and>
   run (exampleEnv ''pull_request'' (Some 2)) exampleWorld = catch (addDdayLabel ''hook'' 2 exampleWorld) \<and>
   AddLabels 2 [''D-3''] \<in> set (issued exampleWorld (run (exampleEnv ''pull_request'' (Some 2)) exampleWorld)) \<and>
   PullsList \<in> set (issued exampleWorld (run (exampleEnv ''schedule'' None) exampleWorld)) \<and>
   run (exampleEnv ''push'' None) exampleWorld = exampleWorld"
  using run_dispatch [where e = "exampleEnv ''schedule'' None" and token = "''token''" and url = "''hook''" and n = 2 and w = exampleWorld]
    run_dispatch [where e = "exampleEnv ''workflow_dispatch'' None" and token = "''token''" and url = "''hook''" and n = 2 and w = exampleWorld]
    run_dispatch [where e = "exampleEnv ''pull_request'' (Some 2)" and token = "''token''" and url = "''hook''" and n = 2 and w = exampleWorld]
    run_dispatch [where e = "exampleEnv ''push'' None" and token = "''token''" and url = "''hook''" and n = 2 and w = exampleWorld]
  by (auto simp: exampleEnv_fields noThrow_def)

end
